theory Spec2Isabelle
  imports Main "HOL-Library.Finite_Map" "HOL-Library.Sublist"
begin

section \<open>Python values, errors and the wire messages\<close>

text \<open>
  The module \<^verbatim>\<open>azure/functions_worker/bindings/meta.py\<close> moves values between the wire
  message \<^verbatim>\<open>TypedData\<close> and Python objects. A Python \<^verbatim>\<open>str\<close> is modelled as a list of
  characters with code points below 256, \<^verbatim>\<open>bytes\<close> as a list of bytes, a \<^verbatim>\<open>dict\<close> that is
  only read as a value as a finite map, and every exception as a value on the left of a
  sum.
\<close>

type_synonym pybytes = string

datatype pyerr =
    NotImplementedError string
  | TypeError string
  | NameError string
  | KeyError string
  | AttributeError string
  | OtherError string

text \<open>
  \<open>PObj a c\<close> is an object of some other class \<open>c\<close>, known by its address \<open>a\<close>.
  \<open>Datum v t\<close> is the class \<^verbatim>\<open>Datum\<close> with its two attributes \<^verbatim>\<open>value\<close> and \<^verbatim>\<open>type\<close>.
\<close>

datatype pyval =
    PNone
  | PStr string
  | PBytes pybytes
  | PInt int
  | PDict "(string, pyval) fmap"
  | PDatum datum
  | PObj nat string
and datum = Datum (datum_value: pyval) (datum_type: string)

text \<open>
  Modelled from the spec: the generated module \<^verbatim>\<open>protos\<close> with the message classes is not
  among the sources. \<^verbatim>\<open>TypedData\<close> is a discriminated union (\<^verbatim>\<open>oneof data\<close>) with the
  fields \<^verbatim>\<open>string\<close>, \<^verbatim>\<open>bytes\<close>, \<^verbatim>\<open>json\<close>, \<^verbatim>\<open>http\<close> and further kinds (\<open>TD_other\<close> with
  the field's name); \<open>TD_unset\<close> is the message with no field populated. \<^verbatim>\<open>RpcHttp\<close> has
  \<^verbatim>\<open>method\<close>, \<^verbatim>\<open>url\<close>, the maps \<^verbatim>\<open>headers\<close>, \<^verbatim>\<open>params\<close>, \<^verbatim>\<open>query\<close>, the nested messages
  \<^verbatim>\<open>body\<close> and \<^verbatim>\<open>rawBody\<close>, \<^verbatim>\<open>status_code\<close> and the flag \<^verbatim>\<open>enable_content_negotiation\<close>.
\<close>

datatype typed_data =
    TD_unset
  | TD_string string
  | TD_bytes pybytes
  | TD_json string
  | TD_http rpc_http
  | TD_other string
and rpc_http =
  RpcHttp (http_method: string) (http_url: string)
    (http_headers: "(string, string) fmap") (http_body: typed_data)
    (http_params: "(string, string) fmap") (http_status_code: string)
    (http_query: "(string, string) fmap") (http_enable_content_negotiation: bool)
    (http_rawBody: typed_data)

text \<open>\<^verbatim>\<open>td.WhichOneof('data')\<close>: the name of the populated field, or \<^verbatim>\<open>None\<close>.\<close>

fun WhichOneof :: "typed_data \<Rightarrow> string option" where
  "WhichOneof TD_unset = None"
| "WhichOneof (TD_string _) = Some ''string''"
| "WhichOneof (TD_bytes _) = Some ''bytes''"
| "WhichOneof (TD_json _) = Some ''json''"
| "WhichOneof (TD_http _) = Some ''http''"
| "WhichOneof (TD_other n) = Some n"

section \<open>Rendering values in messages\<close>

text \<open>
  \<^verbatim>\<open>repr\<close> of a \<^verbatim>\<open>str\<close>, which the format field \<^verbatim>\<open>{!r}\<close> calls: the text between quotes, a
  double quote being chosen when the text holds a single quote and no double quote; the
  quote and the backslash are escaped, tab, newline and carriage return have their
  letters, and a character that is not printable (control characters, the no-break space
  and the soft hyphen among the code points below 256) is written \<^verbatim>\<open>\xhh\<close>.
\<close>

definition squote :: char where
  "squote = CHR 0x27"

definition dquote :: char where
  "dquote = CHR 0x22"

definition backslash :: char where
  "backslash = CHR 0x5C"

definition hex_digit :: "nat \<Rightarrow> char" where
  "hex_digit n = ''0123456789abcdef'' ! (n mod 16)"

definition repr_char :: "char \<Rightarrow> char \<Rightarrow> string" where
  "repr_char q c =
     (let n = (of_char c :: nat) in
      if c = q \<or> c = backslash then [backslash, c]
      else if n = 9 then [backslash, CHR ''t'']
      else if n = 10 then [backslash, CHR ''n'']
      else if n = 13 then [backslash, CHR ''r'']
      else if n < 32 \<or> n = 127 then [backslash, CHR ''x'', hex_digit (n div 16), hex_digit n]
      else if n < 127 then [c]
      else if n \<le> 160 \<or> n = 173 then [backslash, CHR ''x'', hex_digit (n div 16), hex_digit n]
      else [c])"

definition repr_str :: "string \<Rightarrow> string" where
  "repr_str s =
     (let q = (if squote \<in> set s \<and> dquote \<notin> set s then dquote else squote)
      in q # concat (map (repr_char q) s) @ [q])"

text \<open>\<^verbatim>\<open>repr\<close> of the result of \<^verbatim>\<open>WhichOneof\<close>, a \<^verbatim>\<open>str\<close> or \<^verbatim>\<open>None\<close>.\<close>

definition repr_opt :: "string option \<Rightarrow> string" where
  "repr_opt x = (case x of None \<Rightarrow> ''None'' | Some s \<Rightarrow> repr_str s)"

section \<open>The class Datum\<close>

text \<open>
  \<^verbatim>\<open>Datum.__eq__\<close>. The only class of the module is \<^verbatim>\<open>Datum\<close> itself, so
  \<^verbatim>\<open>isinstance(other, type(self))\<close> asks whether \<open>other\<close> is a Datum. The comparisons
  \<^verbatim>\<open>self.value == other.value\<close> and \<^verbatim>\<open>self.type == other.type\<close> are Python's equality,
  which on the values modelled here is equality of the contents: a \<^verbatim>\<open>str\<close>, \<^verbatim>\<open>bytes\<close>,
  \<^verbatim>\<open>int\<close> or \<^verbatim>\<open>None\<close> by value, a \<^verbatim>\<open>dict\<close> by its keys and the values under them, a
  nested Datum by this same method and any other object by identity.
\<close>

definition Datum_eq :: "datum \<Rightarrow> pyval \<Rightarrow> bool" where
  "Datum_eq self other =
     (case other of
        PDatum d \<Rightarrow> datum_value self = datum_value d \<and> datum_type self = datum_type d
      | _ \<Rightarrow> False)"

text \<open>
  The interpreter's hash functions are parameters: the hash of a \<^verbatim>\<open>str\<close> depends on the
  process, the one of a tuple on the interpreter's version.
\<close>

record pyhash =
  hash_str :: "string \<Rightarrow> int"
  hash_bytes :: "pybytes \<Rightarrow> int"
  hash_int :: "int \<Rightarrow> int"
  hash_None :: int
  hash_object :: "nat \<Rightarrow> int"
  hash_class_Datum :: int
  hash_tuple :: "int list \<Rightarrow> int"

text \<open>
  \<^verbatim>\<open>Datum.__hash__\<close>: \<^verbatim>\<open>hash((type(self), (self.value, self.type)))\<close>. Hashing a tuple
  hashes its items from left to right; a \<^verbatim>\<open>dict\<close> has no hash.
\<close>

fun py_hash :: "pyhash \<Rightarrow> pyval \<Rightarrow> pyerr + int"
  and Datum_hash :: "pyhash \<Rightarrow> datum \<Rightarrow> pyerr + int" where
  "py_hash H PNone = Inr (hash_None H)"
| "py_hash H (PStr s) = Inr (hash_str H s)"
| "py_hash H (PBytes b) = Inr (hash_bytes H b)"
| "py_hash H (PInt i) = Inr (hash_int H i)"
| "py_hash H (PDict m) = Inl (TypeError (''unhashable type: '' @ repr_str ''dict''))"
| "py_hash H (PDatum d) = Datum_hash H d"
| "py_hash H (PObj a c) = Inr (hash_object H a)"
| "Datum_hash H (Datum v t) =
     (case py_hash H v of
        Inl e \<Rightarrow> Inl e
      | Inr hv \<Rightarrow> Inr (hash_tuple H [hash_class_Datum H, hash_tuple H [hv, hash_str H t]]))"

text \<open>Hash functions for the examples.\<close>

definition sample_hash :: pyhash where
  "sample_hash =
     \<lparr>hash_str = (\<lambda>s. int (length s)), hash_bytes = (\<lambda>b. int (length b)), hash_int = (\<lambda>i. i),
      hash_None = 0, hash_object = int, hash_class_Datum = 7, hash_tuple = sum_list\<rparr>"

text \<open>\<^verbatim>\<open>obj[key]\<close> with a \<^verbatim>\<open>str\<close> key: only a \<^verbatim>\<open>dict\<close> can be read this way.\<close>

definition py_getitem :: "pyval \<Rightarrow> string \<Rightarrow> pyerr + pyval" where
  "py_getitem obj k =
     (case obj of
        PDict m \<Rightarrow> (case fmlookup m k of None \<Rightarrow> Inl (KeyError (repr_str k)) | Some v \<Rightarrow> Inr v)
      | _ \<Rightarrow> Inl (TypeError ''object cannot be indexed by a str''))"

text \<open>\<^verbatim>\<open>obj.value\<close>: among the values modelled only a Datum has this attribute.\<close>

definition py_attr_value :: "pyval \<Rightarrow> pyerr + pyval" where
  "py_attr_value obj =
     (case obj of
        PDatum d \<Rightarrow> Inr (datum_value d)
      | _ \<Rightarrow> Inl (AttributeError ''value''))"

text \<open>
  The names bound at the top level of \<^verbatim>\<open>meta.py\<close>: its imports, its class and its
  functions. A name that is not local to a function is looked up here (and then among
  the builtins, which have neither \<^verbatim>\<open>headers\<close> nor \<^verbatim>\<open>body\<close>).
\<close>

definition module_names :: "string list" where
  "module_names =
     [''collections'', ''sys'', ''typing'', ''protos'', ''typing_inspect'', ''generic'',
      ''Datum'', ''get_binding_registry'', ''is_iterable_type_annotation'', ''get_binding'',
      ''is_trigger_binding'', ''check_input_type_annotation'',
      ''check_output_type_annotation'', ''from_incoming_proto'', ''to_outgoing_proto'']"

definition load_name :: "string \<Rightarrow> pyerr + string" where
  "load_name n =
     (if n \<in> set module_names then Inr n
      else Inl (NameError (''name '' @ repr_str n @ '' is not defined'')))"

text \<open>
  The message constructors check the type of what they are given: a \<^verbatim>\<open>string\<close> field
  takes a \<^verbatim>\<open>str\<close> and a \<^verbatim>\<open>bytes\<close> field takes \<^verbatim>\<open>bytes\<close>. (Bytes given for a \<^verbatim>\<open>string\<close>
  field, which some versions of the message library decode, count as rejected here.)
\<close>

definition proto_str :: "pyval \<Rightarrow> pyerr + string" where
  "proto_str v = (case v of PStr s \<Rightarrow> Inr s | _ \<Rightarrow> Inl (TypeError ''expected str''))"

definition proto_bytes :: "pyval \<Rightarrow> pyerr + pybytes" where
  "proto_bytes v = (case v of PBytes b \<Rightarrow> Inr b | _ \<Rightarrow> Inl (TypeError ''expected bytes''))"

text \<open>
  \<^verbatim>\<open>Datum.as_proto\<close>. In the \<^verbatim>\<open>http\<close> branch the keyword arguments are evaluated in
  order: \<^verbatim>\<open>self.value['status_code'].value\<close> first, then the comprehension over
  \<^verbatim>\<open>headers.items()\<close>, where \<^verbatim>\<open>headers\<close> is no parameter and no local variable of the
  method. No object bound at the top level of the module (a module, a class or a
  function) has a method \<^verbatim>\<open>items\<close>, so \<^verbatim>\<open>body.as_proto()\<close> is never reached.
\<close>

definition as_proto :: "datum \<Rightarrow> pyerr + typed_data" where
  "as_proto self =
     (if datum_type self = ''string'' then
        (case proto_str (datum_value self) of Inl e \<Rightarrow> Inl e | Inr s \<Rightarrow> Inr (TD_string s))
      else if datum_type self = ''bytes'' then
        (case proto_bytes (datum_value self) of Inl e \<Rightarrow> Inl e | Inr b \<Rightarrow> Inr (TD_bytes b))
      else if datum_type self = ''json'' then
        (case proto_str (datum_value self) of Inl e \<Rightarrow> Inl e | Inr s \<Rightarrow> Inr (TD_json s))
      else if datum_type self = ''http'' then
        (case py_getitem (datum_value self) ''status_code'' of
           Inl e \<Rightarrow> Inl e
         | Inr sc \<Rightarrow>
             (case py_attr_value sc of
                Inl e \<Rightarrow> Inl e
              | Inr status_code \<Rightarrow>
                  (case load_name ''headers'' of
                     Inl e \<Rightarrow> Inl e
                   | Inr g \<Rightarrow> Inl (AttributeError ''items''))))
      else Inl (NotImplementedError (''unexpected Datum type: '' @ repr_str (datum_type self))))"

text \<open>
  \<^verbatim>\<open>Datum.from_typed_data\<close>, one equation for each value of \<^verbatim>\<open>td.WhichOneof('data')\<close>.
  \<open>TD_other n\<close> is a message whose populated field \<open>n\<close> is none of the four that have a
  branch of their own. Only the conversion of \<^verbatim>\<open>http.rawBody\<close> can fail in the \<^verbatim>\<open>http\<close>
  branch.
\<close>

definition str_datum :: "string \<Rightarrow> pyval" where
  "str_datum s = PDatum (Datum (PStr s) ''string'')"

fun from_typed_data :: "typed_data \<Rightarrow> pyerr + datum" where
  "from_typed_data (TD_http (RpcHttp m u hs b ps sc q ecn rb)) =
     (case from_typed_data rb of
        Inl e \<Rightarrow> Inl e
      | Inr body \<Rightarrow>
          Inr (Datum
            (PDict (fmap_of_list
               [(''method'', str_datum m),
                (''url'', str_datum u),
                (''headers'', PDict (fmmap str_datum hs)),
                (''body'', PDatum body),
                (''params'', PDict (fmmap str_datum ps)),
                (''query'', PDict (fmmap str_datum q))]))
            ''http''))"
| "from_typed_data (TD_string s) = Inr (Datum (PStr s) ''string'')"
| "from_typed_data (TD_bytes b) = Inr (Datum (PBytes b) ''bytes'')"
| "from_typed_data (TD_json s) = Inr (Datum (PStr s) ''json'')"
| "from_typed_data (TD_other n) =
     Inl (NotImplementedError (''unsupported TypeData kind: '' @ repr_str n))"
| "from_typed_data TD_unset =
     Inl (NotImplementedError (''unsupported TypeData kind: '' @ repr_opt None))"

text \<open>The round trip \<^verbatim>\<open>Datum.from_typed_data(d.as_proto())\<close>.\<close>

definition roundtrip :: "datum \<Rightarrow> pyerr + datum" where
  "roundtrip d = (case as_proto d of Inl e \<Rightarrow> Inl e | Inr td \<Rightarrow> from_typed_data td)"

text \<open>
  The round trip holds for \<open>d\<close> when it gives a Datum and that Datum compares equal to
  \<open>d\<close> with \<^verbatim>\<open>==\<close>.
\<close>

definition roundtrip_ok :: "datum \<Rightarrow> bool" where
  "roundtrip_ok d =
     (case roundtrip d of Inl e \<Rightarrow> False | Inr d' \<Rightarrow> Datum_eq d' (PDatum d))"

text \<open>
  An answer to an http request as \<^verbatim>\<open>as_proto\<close> expects it:
  \<^verbatim>\<open>{'status_code': Datum('200', 'string'), 'headers': {'Content-Type':
  Datum('text/plain', 'string')}, 'body': Datum('ok', 'string')}\<close>.
\<close>

definition http_response_value :: pyval where
  "http_response_value =
     PDict (fmap_of_list
       [(''status_code'', str_datum ''200''),
        (''headers'', PDict (fmap_of_list [(''Content-Type'', str_datum ''text/plain'')])),
        (''body'', str_datum ''ok'')])"

section \<open>Type annotations\<close>

text \<open>
  The objects that \<^verbatim>\<open>is_iterable_type_annotation\<close> is given or finds in an annotation: a
  class (its name and the names of all the classes it is a subclass of, itself apart), a
  type variable, a \<^verbatim>\<open>Union\<close>, a parameterized generic such as \<^verbatim>\<open>List[int]\<close> (its origin and
  its arguments), a tuple of objects, and \<^verbatim>\<open>None\<close> for every other value.
\<close>

datatype pyobj =
    ClassObj string "string list"
  | TypeVar string
  | UnionObj "pyobj list"
  | Alias pyobj "pyobj list"
  | TupleObj "pyobj list"
  | NoneObj

text \<open>\<^verbatim>\<open>isinstance(x, type)\<close> and \<^verbatim>\<open>isinstance(x, tuple)\<close>.\<close>

fun is_type :: "pyobj \<Rightarrow> bool" where
  "is_type (ClassObj n bases) = True"
| "is_type _ = False"

fun is_tuple :: "pyobj \<Rightarrow> bool" where
  "is_tuple (TupleObj xs) = True"
| "is_tuple _ = False"

fun subclass_of :: "pyobj \<Rightarrow> pyobj \<Rightarrow> bool" where
  "subclass_of (ClassObj m mbases) (ClassObj n nbases) = (n = m \<or> n \<in> set mbases)"
| "subclass_of _ _ = False"

text \<open>
  The builtin \<^verbatim>\<open>issubclass(cls, classinfo)\<close> of the interpreters the module was written
  for (before Python 3.10): \<open>classinfo\<close> is a class or a tuple of such, read from left to
  right up to the first hit, and \<open>cls\<close> is a class; anything else is a \<^verbatim>\<open>TypeError\<close>.
\<close>

fun issubclass :: "pyobj \<Rightarrow> pyobj \<Rightarrow> pyerr + bool"
  and issubclass_tuple :: "pyobj \<Rightarrow> pyobj list \<Rightarrow> pyerr + bool" where
  "issubclass c (ClassObj n nbases) =
     (if is_type c then Inr (subclass_of c (ClassObj n nbases))
      else Inl (TypeError ''issubclass() arg 1 must be a class''))"
| "issubclass c (TupleObj xs) = issubclass_tuple c xs"
| "issubclass c (TypeVar v) = Inl (TypeError ''issubclass() arg 2 must be a class or tuple of classes'')"
| "issubclass c (UnionObj xs) = Inl (TypeError ''issubclass() arg 2 must be a class or tuple of classes'')"
| "issubclass c (Alias orig xs) = Inl (TypeError ''issubclass() arg 2 must be a class or tuple of classes'')"
| "issubclass c NoneObj = Inl (TypeError ''issubclass() arg 2 must be a class or tuple of classes'')"
| "issubclass_tuple c [] = Inr False"
| "issubclass_tuple c (x # xs) =
     (case issubclass c x of
        Inl e \<Rightarrow> Inl e
      | Inr b \<Rightarrow> if b then Inr True else issubclass_tuple c xs)"

definition Iterable :: pyobj where
  "Iterable = ClassObj ''collections.abc.Iterable'' []"

text \<open>
  The module \<^verbatim>\<open>typing_inspect\<close> of the package is not among the sources; its three
  functions that \<^verbatim>\<open>is_iterable_type_annotation\<close> calls are parameters.
\<close>

record typing_inspect =
  is_generic_type :: "pyobj \<Rightarrow> bool"
  get_origin :: "pyobj \<Rightarrow> pyobj"
  get_args :: "pyobj \<Rightarrow> pyobj list"

text \<open>
  \<^verbatim>\<open>any(isinstance(t, type) and issubclass(t, arg) for ...)\<close> over the pairs the generator
  yields, in its order: \<^verbatim>\<open>any\<close> stops at the first true item, and an exception raised
  while an item is computed ends the call.
\<close>

fun any_subclass :: "(pyobj \<times> pyobj) list \<Rightarrow> pyerr + bool" where
  "any_subclass [] = Inr False"
| "any_subclass ((t, arg) # ps) =
     (if is_type t then
        (case issubclass t arg of
           Inl e \<Rightarrow> Inl e
         | Inr b \<Rightarrow> if b then Inr True else any_subclass ps)
      else any_subclass ps)"

text \<open>
  \<^verbatim>\<open>is_iterable_type_annotation\<close>. \<^verbatim>\<open>for t in pytype for arg in args\<close> runs through the
  candidates and, for each, through the arguments.
\<close>

definition is_iterable_type_annotation ::
    "typing_inspect \<Rightarrow> pyobj \<Rightarrow> pyobj \<Rightarrow> pyerr + bool" where
  "is_iterable_type_annotation ti annotation pytype =
     (case (if is_generic_type ti annotation
            then issubclass (get_origin ti annotation) Iterable
            else Inr False) of
        Inl e \<Rightarrow> Inl e
      | Inr is_iterable_anno \<Rightarrow>
          if \<not> is_iterable_anno then Inr False
          else
            (let args = get_args ti annotation in
             if args = [] then Inr False
             else
               (case pytype of
                  TupleObj ts \<Rightarrow> any_subclass (List.product ts args)
                | _ \<Rightarrow> any_subclass (map (\<lambda>arg. (pytype, arg)) args))))"

text \<open>
  The candidates that a call compares with the type arguments: the items of \<open>pytype\<close>
  when it is a tuple, and \<open>pytype\<close> itself otherwise.
\<close>

definition candidates :: "pyobj \<Rightarrow> pyobj list" where
  "candidates p = (case p of TupleObj ts \<Rightarrow> ts | _ \<Rightarrow> [p])"

text \<open>
  Modelled from the spec: \<^verbatim>\<open>typing_inspect\<close> is missing from the sources. An annotation is
  generic when it is a parameterized generic type; its origin and its type arguments are
  the ones it was built from, and any other object has no origin and no arguments.
\<close>

fun alias_is_generic :: "pyobj \<Rightarrow> bool" where
  "alias_is_generic (Alias orig xs) = True"
| "alias_is_generic _ = False"

fun alias_origin :: "pyobj \<Rightarrow> pyobj" where
  "alias_origin (Alias orig xs) = orig"
| "alias_origin _ = NoneObj"

fun alias_args :: "pyobj \<Rightarrow> pyobj list" where
  "alias_args (Alias orig xs) = xs"
| "alias_args _ = []"

definition inspect_model :: typing_inspect where
  "inspect_model =
     \<lparr>is_generic_type = alias_is_generic, get_origin = alias_origin, get_args = alias_args\<rparr>"

text \<open>The classes and annotations of the examples.\<close>

definition int_class :: pyobj where
  "int_class = ClassObj ''int'' [''object'']"

definition str_class :: pyobj where
  "str_class = ClassObj ''str'' [''object'']"

definition bool_class :: pyobj where
  "bool_class = ClassObj ''bool'' [''int'', ''object'']"

definition list_class :: pyobj where
  "list_class = ClassObj ''list'' [''collections.abc.Iterable'', ''object'']"

definition List_of :: "pyobj list \<Rightarrow> pyobj" where
  "List_of xs = Alias list_class xs"

section \<open>Bindings and their registry\<close>

text \<open>
  A binding, as far as the facade uses it: what \<^verbatim>\<open>str(binding)\<close> gives, and its methods
  \<^verbatim>\<open>decode(datum, trigger_metadata=...)\<close> and \<^verbatim>\<open>encode(obj, expected_type=...)\<close>. The
  metadata is a \<^verbatim>\<open>dict\<close> that is built entry by entry, so it is kept as the list of its
  items in their order.
\<close>

record binding =
  binding_str :: string
  decode :: "datum \<Rightarrow> (string \<times> datum) list \<Rightarrow> pyerr + pyval"
  encode :: "pyval \<Rightarrow> pyobj option \<Rightarrow> pyerr + datum"

text \<open>
  Modelled from the spec: the module \<^verbatim>\<open>azure.functions\<close> is an outside package. When it is
  loaded, its \<^verbatim>\<open>get_registry()\<close> gives a mapping from binding names to bindings.
\<close>

datatype py_module = Module (get_registry: "string \<Rightarrow> binding option")

text \<open>\<^verbatim>\<open>get_binding_registry\<close> reads the table of loaded modules, \<^verbatim>\<open>sys.modules\<close>.\<close>

definition get_binding_registry ::
    "(string \<Rightarrow> py_module option) \<Rightarrow> (string \<Rightarrow> binding option) option" where
  "get_binding_registry sys_modules =
     (case sys_modules ''azure.functions'' of
        Some func \<Rightarrow> Some (get_registry func)
      | None \<Rightarrow> None)"

text \<open>
  \<^verbatim>\<open>get_binding\<close>. The class \<^verbatim>\<open>generic.GenericBinding\<close> is defined in a module that is
  not among the sources: it is the parameter \<open>GenericBinding\<close>.
\<close>

definition get_binding ::
    "binding \<Rightarrow> (string \<Rightarrow> py_module option) \<Rightarrow> string \<Rightarrow> binding" where
  "get_binding GenericBinding sys_modules bind_name =
     (let binding =
        (case get_binding_registry sys_modules of
           Some registry \<Rightarrow> registry bind_name
         | None \<Rightarrow> None)
      in case binding of None \<Rightarrow> GenericBinding | Some b \<Rightarrow> b)"

section \<open>The facade\<close>

text \<open>
  The comprehension \<^verbatim>\<open>{k: Datum.from_typed_data(v) for k, v in trigger_metadata.items()}\<close>:
  the first entry that cannot be converted ends it.
\<close>

fun convert_metadata :: "(string \<times> typed_data) list \<Rightarrow> pyerr + (string \<times> datum) list" where
  "convert_metadata [] = Inr []"
| "convert_metadata ((k, v) # kvs) =
     (case from_typed_data v of
        Inl e \<Rightarrow> Inl e
      | Inr d \<Rightarrow>
          (case convert_metadata kvs of
             Inl e \<Rightarrow> Inl e
           | Inr ds \<Rightarrow> Inr ((k, d) # ds)))"

text \<open>
  \<^verbatim>\<open>from_incoming_proto\<close>. \<^verbatim>\<open>trigger_metadata\<close> is declared \<^verbatim>\<open>Optional\<close>; \<^verbatim>\<open>None\<close> has no
  method \<^verbatim>\<open>items\<close>. Only the call of \<^verbatim>\<open>decode\<close> is inside the \<^verbatim>\<open>try\<close>.
\<close>

definition decode_message :: "string option \<Rightarrow> binding \<Rightarrow> string" where
  "decode_message dt b =
     ''unable to decode incoming TypedData: unsupported combination of TypedData field ''
       @ repr_opt dt @ '' and expected binding type '' @ binding_str b"

definition from_incoming_proto ::
    "binding \<Rightarrow> (string \<Rightarrow> py_module option) \<Rightarrow> string \<Rightarrow> typed_data \<Rightarrow> pyobj option
       \<Rightarrow> (string \<times> typed_data) list option \<Rightarrow> pyerr + pyval" where
  "from_incoming_proto GenericBinding sys_modules binding val pytype trigger_metadata =
     (let b = get_binding GenericBinding sys_modules binding in
      case from_typed_data val of
        Inl e \<Rightarrow> Inl e
      | Inr datum \<Rightarrow>
          (case trigger_metadata of
             None \<Rightarrow> Inl (AttributeError ''items'')
           | Some tm \<Rightarrow>
               (case convert_metadata tm of
                  Inl e \<Rightarrow> Inl e
                | Inr metadata \<Rightarrow>
                    (case decode b datum metadata of
                       Inl (NotImplementedError m) \<Rightarrow>
                         Inl (TypeError (decode_message (WhichOneof val) b))
                     | Inl e \<Rightarrow> Inl e
                     | Inr r \<Rightarrow> Inr r))))"

text \<open>\<^verbatim>\<open>type(obj).__name__\<close>.\<close>

fun type_name :: "pyval \<Rightarrow> string" where
  "type_name PNone = ''NoneType''"
| "type_name (PStr s) = ''str''"
| "type_name (PBytes b) = ''bytes''"
| "type_name (PInt i) = ''int''"
| "type_name (PDict m) = ''dict''"
| "type_name (PDatum d) = ''Datum''"
| "type_name (PObj a c) = c"

text \<open>\<^verbatim>\<open>to_outgoing_proto\<close>. \<^verbatim>\<open>datum.as_proto()\<close> comes after the \<^verbatim>\<open>try\<close>.\<close>

definition encode_message :: "binding \<Rightarrow> pyval \<Rightarrow> string" where
  "encode_message b obj =
     ''unable to encode outgoing TypedData: unsupported type '' @ [dquote] @ binding_str b
       @ [dquote] @ '' for Python type '' @ [dquote] @ type_name obj @ [dquote]"

definition to_outgoing_proto ::
    "binding \<Rightarrow> (string \<Rightarrow> py_module option) \<Rightarrow> string \<Rightarrow> pyval \<Rightarrow> pyobj option
       \<Rightarrow> pyerr + typed_data" where
  "to_outgoing_proto GenericBinding sys_modules binding obj pytype =
     (let b = get_binding GenericBinding sys_modules binding in
      case encode b obj pytype of
        Inl (NotImplementedError m) \<Rightarrow> Inl (TypeError (encode_message b obj))
      | Inl e \<Rightarrow> Inl e
      | Inr datum \<Rightarrow> as_proto datum)"

text \<open>
  Bindings for the examples: one that declines every value, one that passes a \<^verbatim>\<open>str\<close>
  through, and a registry that knows the first under the name \<^verbatim>\<open>queue\<close>.
\<close>

definition declining_binding :: binding where
  "declining_binding =
     \<lparr>binding_str = ''QueueBinding'',
      decode = (\<lambda>d md. Inl (NotImplementedError [])),
      encode = (\<lambda>obj t. Inl (NotImplementedError []))\<rparr>"

definition passing_binding :: binding where
  "passing_binding =
     \<lparr>binding_str = ''GenericBinding'',
      decode = (\<lambda>d md. Inr (datum_value d)),
      encode = (\<lambda>obj t. Inr (Datum obj ''string''))\<rparr>"

definition queue_modules :: "string \<Rightarrow> py_module option" where
  "queue_modules =
     [''azure.functions'' \<mapsto> Module [''queue'' \<mapsto> declining_binding]]"

section \<open>Properties of Datum\<close>

lemma repr_str_int: "repr_str ''int'' = squote # ''int'' @ [squote]"
  by (simp add: repr_str_def repr_char_def squote_def dquote_def backslash_def Let_def)

lemma load_name_headers:
  "load_name ''headers'' = Inl (NameError (''name '' @ repr_str ''headers'' @ '' is not defined''))"
  by (simp add: load_name_def module_names_def)

lemma Datum_eq_PDatum: "Datum_eq a (PDatum b) \<longleftrightarrow> a = b"
  by (cases a; cases b) (simp add: Datum_eq_def)

lemma roundtrip_string: "roundtrip (Datum (PStr s) ''string'') = Inr (Datum (PStr s) ''string'')"
  by (simp add: roundtrip_def as_proto_def proto_str_def)

lemma roundtrip_json: "roundtrip (Datum (PStr s) ''json'') = Inr (Datum (PStr s) ''json'')"
  by (simp add: roundtrip_def as_proto_def proto_str_def)

lemma roundtrip_bytes: "roundtrip (Datum (PBytes b) ''bytes'') = Inr (Datum (PBytes b) ''bytes'')"
  by (simp add: roundtrip_def as_proto_def proto_bytes_def)

text \<open>Whatever an \<^verbatim>\<open>http\<close> Datum holds, \<^verbatim>\<open>as_proto\<close> raises.\<close>

lemma as_proto_http_raises: "datum_type d = ''http'' \<Longrightarrow> isl (as_proto d)"
  by (simp add: as_proto_def load_name_headers split: sum.split)

lemma as_proto_http_response:
  "as_proto (Datum http_response_value ''http'') =
     Inl (NameError (''name '' @ repr_str ''headers'' @ '' is not defined''))"
proof -
  have "py_getitem http_response_value ''status_code'' = Inr (str_datum ''200'')"
    by (simp add: http_response_value_def py_getitem_def)
  moreover have "py_attr_value (str_datum ''200'') = Inr (PStr ''200'')"
    by (simp add: py_attr_value_def str_datum_def)
  ultimately show ?thesis
    by (simp add: as_proto_def load_name_headers)
qed

text \<open>
  C1, as amended. For the kinds \<^verbatim>\<open>string\<close> and \<^verbatim>\<open>json\<close> with any \<^verbatim>\<open>str\<close>, and for the
  kind \<^verbatim>\<open>bytes\<close> with any \<^verbatim>\<open>bytes\<close>, \<^verbatim>\<open>Datum.from_typed_data(Datum(v, k).as_proto())\<close> is a
  Datum equal to \<^verbatim>\<open>Datum(v, k)\<close>.
\<close>

theorem roundtrip_scalar_kinds:
  "roundtrip_ok (Datum (PStr s) ''string'') \<and> roundtrip_ok (Datum (PBytes b) ''bytes'')
     \<and> roundtrip_ok (Datum (PStr s) ''json'')"
  by (simp add: roundtrip_ok_def roundtrip_string roundtrip_json roundtrip_bytes Datum_eq_PDatum)

text \<open>
  C1 as stated fails for the kind \<^verbatim>\<open>http\<close>: for the answer \<open>http_response_value\<close> the
  round trip gives no Datum.
\<close>

theorem roundtrip_http_fails: "\<not> roundtrip_ok (Datum http_response_value ''http'')"
  by (simp add: roundtrip_ok_def roundtrip_def as_proto_http_response)

text \<open>
  C2. The claim asks \<^verbatim>\<open>as_proto\<close> to build the http message from \<^verbatim>\<open>self.value['headers']\<close>
  and \<^verbatim>\<open>self.value['body']\<close>. On a Datum that has the entries \<^verbatim>\<open>status_code\<close>, \<^verbatim>\<open>headers\<close>
  and \<^verbatim>\<open>body\<close> the method builds no message: it raises \<^verbatim>\<open>NameError\<close> for \<^verbatim>\<open>headers\<close>.
\<close>

theorem as_proto_http_name_error:
  "as_proto (Datum http_response_value ''http'') =
     Inl (NameError (''name '' @ repr_str ''headers'' @ '' is not defined''))"
  by (rule as_proto_http_response)

text \<open>
  C9. A Datum whose tag is none of \<^verbatim>\<open>string\<close>, \<^verbatim>\<open>bytes\<close>, \<^verbatim>\<open>json\<close>, \<^verbatim>\<open>http\<close> makes
  \<^verbatim>\<open>as_proto\<close> raise \<^verbatim>\<open>NotImplementedError\<close> with the tag in its message, and a wire message
  whose populated field is none of the four makes \<^verbatim>\<open>from_typed_data\<close> raise
  \<^verbatim>\<open>NotImplementedError\<close> with the name of the field in its message.
\<close>

theorem unsupported_kinds:
  "(datum_type d \<notin> {''string'', ''bytes'', ''json'', ''http''} \<longrightarrow>
      as_proto d =
        Inl (NotImplementedError (''unexpected Datum type: '' @ repr_str (datum_type d))))
   \<and> (WhichOneof td = Some n \<and> n \<notin> {''string'', ''bytes'', ''json'', ''http''} \<longrightarrow>
      from_typed_data td =
        Inl (NotImplementedError (''unsupported TypeData kind: '' @ repr_str n)))"
proof (intro conjI impI)
  assume "datum_type d \<notin> {''string'', ''bytes'', ''json'', ''http''}"
  then show "as_proto d =
      Inl (NotImplementedError (''unexpected Datum type: '' @ repr_str (datum_type d)))"
    by (simp add: as_proto_def)
next
  assume "WhichOneof td = Some n \<and> n \<notin> {''string'', ''bytes'', ''json'', ''http''}"
  then show "from_typed_data td =
      Inl (NotImplementedError (''unsupported TypeData kind: '' @ repr_str n))"
    by (cases td) auto
qed

theorem unsupported_kinds_witness:
  "datum_type (Datum (PInt 5) ''int'') \<notin> {''string'', ''bytes'', ''json'', ''http''}
   \<and> WhichOneof (TD_other ''int'') = Some ''int''
   \<and> as_proto (Datum (PInt 5) ''int'') =
      Inl (NotImplementedError (''unexpected Datum type: '' @ squote # ''int'' @ [squote]))
   \<and> from_typed_data (TD_other ''int'') =
      Inl (NotImplementedError (''unsupported TypeData kind: '' @ squote # ''int'' @ [squote]))"
  using unsupported_kinds [of "Datum (PInt 5) ''int''" "TD_other ''int''" "''int''"]
  by (simp add: repr_str_int)

lemma Datum_eq_iff:
  "Datum_eq a other \<longleftrightarrow>
     (\<exists>b. other = PDatum b \<and> datum_value a = datum_value b \<and> datum_type a = datum_type b)"
  by (cases other) (simp_all add: Datum_eq_def)

lemma Datum_hash_value:
  "Datum_hash H d =
     (case py_hash H (datum_value d) of
        Inl e \<Rightarrow> Inl e
      | Inr hv \<Rightarrow>
          Inr (hash_tuple H [hash_class_Datum H, hash_tuple H [hv, hash_str H (datum_type d)]]))"
  by (cases d) (simp split: sum.split)

text \<open>A Datum that holds a \<^verbatim>\<open>dict\<close>, as every \<^verbatim>\<open>http\<close> Datum does, has no hash.\<close>

lemma Datum_hash_dict: "datum_value d = PDict m \<Longrightarrow> isl (Datum_hash H d)"
  by (simp add: Datum_hash_value)

text \<open>
  C8. \<^verbatim>\<open>a == other\<close> holds exactly when \<open>other\<close> is a Datum with the same value and the
  same type; Datums that are equal have the same outcome of \<^verbatim>\<open>hash\<close>, which is computed
  from the tuple \<^verbatim>\<open>(type(self), (self.value, self.type))\<close> whenever the value has a hash;
  and two Datums built from the same value and type are equal, hence hash alike.
\<close>

theorem Datum_eq_hash:
  "(Datum_eq a other \<longleftrightarrow>
      (\<exists>b. other = PDatum b \<and> datum_value a = datum_value b \<and> datum_type a = datum_type b))
   \<and> (Datum_eq a (PDatum b) \<longrightarrow> Datum_hash H a = Datum_hash H b)
   \<and> (py_hash H (datum_value a) = Inr hv \<longrightarrow>
        Datum_hash H a =
          Inr (hash_tuple H [hash_class_Datum H, hash_tuple H [hv, hash_str H (datum_type a)]]))
   \<and> Datum_eq (Datum v t) (PDatum (Datum v t))"
proof (intro conjI impI)
  show "Datum_eq a other \<longleftrightarrow>
      (\<exists>b. other = PDatum b \<and> datum_value a = datum_value b \<and> datum_type a = datum_type b)"
    by (rule Datum_eq_iff)
next
  assume "Datum_eq a (PDatum b)"
  then have "a = b" by (simp add: Datum_eq_PDatum)
  then show "Datum_hash H a = Datum_hash H b" by simp
next
  assume "py_hash H (datum_value a) = Inr hv"
  then show "Datum_hash H a =
      Inr (hash_tuple H [hash_class_Datum H, hash_tuple H [hv, hash_str H (datum_type a)]])"
    by (simp add: Datum_hash_value)
next
  show "Datum_eq (Datum v t) (PDatum (Datum v t))" by (simp add: Datum_eq_PDatum)
qed

theorem Datum_eq_hash_witness:
  "Datum_eq (Datum (PStr ''hello'') ''string'') (PDatum (Datum (PStr ''hello'') ''string''))
   \<and> py_hash sample_hash (PStr ''hello'') = Inr 5
   \<and> Datum_hash sample_hash (Datum (PStr ''hello'') ''string'') = Inr 18"
  using Datum_eq_hash [where a = "Datum (PStr ''hello'') ''string''"
      and other = "PDatum (Datum (PStr ''hello'') ''string'')"
      and b = "Datum (PStr ''hello'') ''string''" and H = sample_hash and hv = 5
      and v = "PStr ''hello''" and t = "''string''"]
  by (simp add: sample_hash_def)

section \<open>Properties of the registry lookup\<close>

lemma get_binding_cases:
  "get_binding G sm name =
     (case sm ''azure.functions'' of
        None \<Rightarrow> G
      | Some func \<Rightarrow> (case get_registry func name of None \<Rightarrow> G | Some b \<Rightarrow> b))"
  by (simp add: get_binding_def get_binding_registry_def split: option.split)

text \<open>
  C5. \<^verbatim>\<open>get_binding\<close> always gives a binding: the generic one when the module
  \<^verbatim>\<open>azure.functions\<close> is not loaded or its registry has no entry for the name, and the
  registry's entry otherwise.
\<close>

theorem get_binding_total:
  "(sm ''azure.functions'' = None \<longrightarrow> get_binding G sm name = G)
   \<and> (sm ''azure.functions'' = Some func \<and> get_registry func name = None \<longrightarrow>
        get_binding G sm name = G)
   \<and> (sm ''azure.functions'' = Some func \<and> get_registry func name = Some b \<longrightarrow>
        get_binding G sm name = b)"
  by (simp add: get_binding_cases)

theorem get_binding_total_witness:
  "Map.empty ''azure.functions'' = (None :: py_module option)
   \<and> get_binding passing_binding Map.empty ''unregistered_name'' = passing_binding
   \<and> queue_modules ''azure.functions'' = Some (Module [''queue'' \<mapsto> declining_binding])
   \<and> get_binding passing_binding queue_modules ''unregistered_name'' = passing_binding
   \<and> get_binding passing_binding queue_modules ''queue'' = declining_binding"
  using get_binding_total [where sm = Map.empty and G = passing_binding
      and name = "''unregistered_name''"]
    get_binding_total [where sm = queue_modules and G = passing_binding
      and func = "Module [''queue'' \<mapsto> declining_binding]" and name = "''unregistered_name''"]
    get_binding_total [where sm = queue_modules and G = passing_binding
      and func = "Module [''queue'' \<mapsto> declining_binding]" and name = "''queue''"
      and b = declining_binding]
  by (simp add: queue_modules_def)

section \<open>Properties of the facade\<close>

lemma repr_str_string: "repr_str ''string'' = squote # ''string'' @ [squote]"
  by (simp add: repr_str_def repr_char_def squote_def dquote_def backslash_def Let_def)
lemma repr_str_bytes: "repr_str ''bytes'' = squote # ''bytes'' @ [squote]"
  by (simp add: repr_str_def repr_char_def squote_def dquote_def backslash_def Let_def)
lemma repr_str_json: "repr_str ''json'' = squote # ''json'' @ [squote]"
  by (simp add: repr_str_def repr_char_def squote_def dquote_def backslash_def Let_def)
lemma repr_str_http: "repr_str ''http'' = squote # ''http'' @ [squote]"
  by (simp add: repr_str_def repr_char_def squote_def dquote_def backslash_def Let_def)

lemma from_typed_data_Inr_kind:
  "from_typed_data val = Inr d \<Longrightarrow>
     WhichOneof val = Some (datum_type d) \<and> datum_type d \<in> {''string'', ''bytes'', ''json'', ''http''}"
  by (cases val rule: from_typed_data.cases) (auto split: sum.splits)

lemma sublist_repr_supported:
  "tag \<in> {''string'', ''bytes'', ''json'', ''http''} \<Longrightarrow> sublist tag (pre @ repr_str tag @ post)"
proof -
  assume "tag \<in> {''string'', ''bytes'', ''json'', ''http''}"
  then have "repr_str tag = [squote] @ tag @ [squote]"
    by (auto simp: repr_str_string repr_str_bytes repr_str_json repr_str_http)
  then have "pre @ repr_str tag @ post = (pre @ [squote]) @ tag @ ([squote] @ post)"
    by simp
  then show ?thesis
    unfolding sublist_def by blast
qed

lemma sublist_last_part: "sublist s (a @ r @ b @ s)"
  unfolding sublist_def
  by (rule exI [of _ "a @ r @ b"], rule exI [of _ "[]"]) simp

lemma decode_message_names:
  assumes t: "tag \<in> {''string'', ''bytes'', ''json'', ''http''}"
  shows "sublist tag (decode_message (Some tag) b)"
    and "sublist (binding_str b) (decode_message (Some tag) b)"
  unfolding decode_message_def repr_opt_def option.case
  by (rule sublist_repr_supported [OF t], rule sublist_last_part)

lemma from_incoming_proto_reached:
  "from_typed_data val = Inr datum \<Longrightarrow> convert_metadata tm = Inr md \<Longrightarrow>
   from_incoming_proto G sm name val pytype (Some tm) =
     (case decode (get_binding G sm name) datum md of
        Inl (NotImplementedError m) \<Rightarrow>
          Inl (TypeError (decode_message (WhichOneof val) (get_binding G sm name)))
      | Inl e \<Rightarrow> Inl e
      | Inr r \<Rightarrow> Inr r)"
  by (simp add: from_incoming_proto_def Let_def)

text \<open>
  C4. When \<^verbatim>\<open>from_incoming_proto\<close> reaches \<^verbatim>\<open>decode\<close> (the wire value and the metadata
  were converted) and \<^verbatim>\<open>decode\<close> raises \<^verbatim>\<open>NotImplementedError\<close>, the call raises
  \<^verbatim>\<open>TypeError\<close> with a message that holds the name of the populated field of the wire value
  and the text of the binding; when \<^verbatim>\<open>decode\<close> returns, the call returns its result.
\<close>

theorem from_incoming_proto_decode:
  "from_typed_data val = Inr datum \<and> convert_metadata tm = Inr md \<longrightarrow>
     (decode (get_binding G sm name) datum md = Inl (NotImplementedError m) \<longrightarrow>
        (\<exists>tag. WhichOneof val = Some tag
           \<and> from_incoming_proto G sm name val pytype (Some tm) =
               Inl (TypeError (decode_message (Some tag) (get_binding G sm name)))
           \<and> sublist tag (decode_message (Some tag) (get_binding G sm name))
           \<and> sublist (binding_str (get_binding G sm name))
               (decode_message (Some tag) (get_binding G sm name))))
     \<and> (decode (get_binding G sm name) datum md = Inr r \<longrightarrow>
        from_incoming_proto G sm name val pytype (Some tm) = Inr r)"
proof (intro impI conjI)
  assume h: "from_typed_data val = Inr datum \<and> convert_metadata tm = Inr md"
    and d: "decode (get_binding G sm name) datum md = Inl (NotImplementedError m)"
  from h have k: "WhichOneof val = Some (datum_type datum)"
    and t: "datum_type datum \<in> {''string'', ''bytes'', ''json'', ''http''}"
    using from_typed_data_Inr_kind by blast+
  from h d k have "from_incoming_proto G sm name val pytype (Some tm) =
      Inl (TypeError (decode_message (Some (datum_type datum)) (get_binding G sm name)))"
    by (simp add: from_incoming_proto_reached)
  with k decode_message_names [OF t, of "get_binding G sm name"]
  show "\<exists>tag. WhichOneof val = Some tag
           \<and> from_incoming_proto G sm name val pytype (Some tm) =
               Inl (TypeError (decode_message (Some tag) (get_binding G sm name)))
           \<and> sublist tag (decode_message (Some tag) (get_binding G sm name))
           \<and> sublist (binding_str (get_binding G sm name))
               (decode_message (Some tag) (get_binding G sm name))"
    by blast
next
  assume h: "from_typed_data val = Inr datum \<and> convert_metadata tm = Inr md"
    and d: "decode (get_binding G sm name) datum md = Inr r"
  then show "from_incoming_proto G sm name val pytype (Some tm) = Inr r"
    by (simp add: from_incoming_proto_reached)
qed

theorem from_incoming_proto_decode_witness:
  "from_typed_data (TD_string ''hello'') = Inr (Datum (PStr ''hello'') ''string'')
   \<and> convert_metadata [] = Inr []
   \<and> decode (get_binding passing_binding queue_modules ''queue'')
        (Datum (PStr ''hello'') ''string'') [] = Inl (NotImplementedError [])
   \<and> from_incoming_proto passing_binding queue_modules ''queue'' (TD_string ''hello'') None (Some [])
        = Inl (TypeError (decode_message (Some ''string'') declining_binding))
   \<and> sublist ''string'' (decode_message (Some ''string'') declining_binding)
   \<and> sublist ''QueueBinding'' (decode_message (Some ''string'') declining_binding)
   \<and> decode (get_binding passing_binding queue_modules ''blob'')
        (Datum (PStr ''hello'') ''string'') [] = Inr (PStr ''hello'')
   \<and> from_incoming_proto passing_binding queue_modules ''blob'' (TD_string ''hello'') None (Some [])
        = Inr (PStr ''hello'')"
proof -
  have q: "get_binding passing_binding queue_modules ''queue'' = declining_binding"
    by (simp add: get_binding_def get_binding_registry_def queue_modules_def)
  have o: "get_binding passing_binding queue_modules ''blob'' = passing_binding"
    by (simp add: get_binding_def get_binding_registry_def queue_modules_def)
  have dq: "decode declining_binding (Datum (PStr ''hello'') ''string'') [] = Inl (NotImplementedError [])"
    by (simp add: declining_binding_def)
  have dp: "decode passing_binding (Datum (PStr ''hello'') ''string'') [] = Inr (PStr ''hello'')"
    by (simp add: passing_binding_def)
  have s: "binding_str declining_binding = ''QueueBinding''"
    by (simp add: declining_binding_def)
  from from_incoming_proto_decode [where val = "TD_string ''hello''"
      and datum = "Datum (PStr ''hello'') ''string''" and tm = "[]" and md = "[]"
      and G = passing_binding and sm = queue_modules and name = "''queue''" and m = "[]"
      and pytype = None]
  have a: "from_incoming_proto passing_binding queue_modules ''queue'' (TD_string ''hello'') None (Some [])
        = Inl (TypeError (decode_message (Some ''string'') declining_binding))
   \<and> sublist ''string'' (decode_message (Some ''string'') declining_binding)
   \<and> sublist ''QueueBinding'' (decode_message (Some ''string'') declining_binding)"
    by (simp add: q dq s)
  from from_incoming_proto_decode [where val = "TD_string ''hello''"
      and datum = "Datum (PStr ''hello'') ''string''" and tm = "[]" and md = "[]"
      and G = passing_binding and sm = queue_modules and name = "''blob''"
      and r = "PStr ''hello''" and pytype = None]
  have b: "from_incoming_proto passing_binding queue_modules ''blob'' (TD_string ''hello'') None (Some [])
        = Inr (PStr ''hello'')"
    by (simp add: o dp)
  from a b show ?thesis
    by (simp add: q o dq dp)
qed

lemma sublist_second_part: "sublist s (a @ q @ s @ r)"
  unfolding sublist_def
  by (rule exI [of _ "a @ q"], rule exI [of _ r]) simp

lemma sublist_seventh_part: "sublist s (a @ q1 @ b @ q2 @ c @ q3 @ s @ q4)"
  unfolding sublist_def
  by (rule exI [of _ "a @ q1 @ b @ q2 @ c @ q3"], rule exI [of _ q4]) simp

lemma encode_message_names:
  "sublist (binding_str b) (encode_message b obj)"
  "sublist (type_name obj) (encode_message b obj)"
  unfolding encode_message_def
  by (rule sublist_second_part, rule sublist_seventh_part)

text \<open>
  C7. When \<^verbatim>\<open>encode\<close> raises \<^verbatim>\<open>NotImplementedError\<close>, \<^verbatim>\<open>to_outgoing_proto\<close> raises
  \<^verbatim>\<open>TypeError\<close> with a message that holds the text of the binding and the name of the type
  of the value; when \<^verbatim>\<open>encode\<close> returns a Datum, the call gives what \<^verbatim>\<open>as_proto\<close> of that
  Datum gives.
\<close>

theorem to_outgoing_proto_encode:
  "(encode (get_binding G sm name) obj pytype = Inl (NotImplementedError m) \<longrightarrow>
      to_outgoing_proto G sm name obj pytype =
        Inl (TypeError (encode_message (get_binding G sm name) obj))
      \<and> sublist (binding_str (get_binding G sm name)) (encode_message (get_binding G sm name) obj)
      \<and> sublist (type_name obj) (encode_message (get_binding G sm name) obj))
   \<and> (encode (get_binding G sm name) obj pytype = Inr d \<longrightarrow>
      to_outgoing_proto G sm name obj pytype = as_proto d)"
  by (simp add: to_outgoing_proto_def Let_def encode_message_names)

theorem to_outgoing_proto_encode_witness:
  "encode (get_binding passing_binding queue_modules ''queue'') (PInt 5) None
      = Inl (NotImplementedError [])
   \<and> to_outgoing_proto passing_binding queue_modules ''queue'' (PInt 5) None
      = Inl (TypeError (encode_message declining_binding (PInt 5)))
   \<and> sublist ''QueueBinding'' (encode_message declining_binding (PInt 5))
   \<and> sublist ''int'' (encode_message declining_binding (PInt 5))
   \<and> encode (get_binding passing_binding queue_modules ''blob'') (PStr ''hello'') None
      = Inr (Datum (PStr ''hello'') ''string'')
   \<and> to_outgoing_proto passing_binding queue_modules ''blob'' (PStr ''hello'') None
      = Inr (TD_string ''hello'')"
proof -
  have q: "get_binding passing_binding queue_modules ''queue'' = declining_binding"
    by (simp add: get_binding_def get_binding_registry_def queue_modules_def)
  have o: "get_binding passing_binding queue_modules ''blob'' = passing_binding"
    by (simp add: get_binding_def get_binding_registry_def queue_modules_def)
  have eq: "encode declining_binding (PInt 5) None = Inl (NotImplementedError [])"
    by (simp add: declining_binding_def)
  have ep: "encode passing_binding (PStr ''hello'') None = Inr (Datum (PStr ''hello'') ''string'')"
    by (simp add: passing_binding_def)
  have s: "binding_str declining_binding = ''QueueBinding''"
    by (simp add: declining_binding_def)
  have p: "as_proto (Datum (PStr ''hello'') ''string'') = Inr (TD_string ''hello'')"
    by (simp add: as_proto_def proto_str_def)
  from to_outgoing_proto_encode [where G = passing_binding and sm = queue_modules
      and name = "''queue''" and obj = "PInt 5" and pytype = None and m = "[]"]
  have a: "to_outgoing_proto passing_binding queue_modules ''queue'' (PInt 5) None
      = Inl (TypeError (encode_message declining_binding (PInt 5)))
   \<and> sublist ''QueueBinding'' (encode_message declining_binding (PInt 5))
   \<and> sublist ''int'' (encode_message declining_binding (PInt 5))"
    by (simp add: q eq s)
  from to_outgoing_proto_encode [where G = passing_binding and sm = queue_modules
      and name = "''blob''" and obj = "PStr ''hello''" and pytype = None
      and d = "Datum (PStr ''hello'') ''string''"]
  have b: "to_outgoing_proto passing_binding queue_modules ''blob'' (PStr ''hello'') None
      = Inr (TD_string ''hello'')"
    by (simp add: o ep p)
  from a b show ?thesis
    by (simp add: q o eq ep)
qed

text \<open>
  C10, as amended. With \<^verbatim>\<open>None\<close> for \<^verbatim>\<open>trigger_metadata\<close> the call fails whatever the
  binding is: with \<^verbatim>\<open>AttributeError\<close> for \<^verbatim>\<open>items\<close> when the wire value can be converted,
  and with the error of that conversion otherwise. With an empty mapping the call goes
  on to \<^verbatim>\<open>decode\<close>.
\<close>

theorem from_incoming_proto_None:
  "(from_typed_data val = Inr d \<longrightarrow>
      from_incoming_proto G sm name val pytype None = Inl (AttributeError ''items''))
   \<and> (from_typed_data val = Inl e \<longrightarrow>
      from_incoming_proto G sm name val pytype None = Inl e)
   \<and> (from_typed_data val = Inr d \<longrightarrow>
      from_incoming_proto G sm name val pytype (Some []) =
        (case decode (get_binding G sm name) d [] of
           Inl (NotImplementedError m) \<Rightarrow>
             Inl (TypeError (decode_message (WhichOneof val) (get_binding G sm name)))
         | Inl e \<Rightarrow> Inl e
         | Inr r \<Rightarrow> Inr r))"
  by (simp add: from_incoming_proto_def Let_def)

theorem from_incoming_proto_None_witness:
  "from_typed_data (TD_string ''hello'') = Inr (Datum (PStr ''hello'') ''string'')
   \<and> from_incoming_proto passing_binding Map.empty ''queue'' (TD_string ''hello'') None None
      = Inl (AttributeError ''items'')
   \<and> from_incoming_proto passing_binding Map.empty ''queue'' (TD_string ''hello'') None (Some [])
      = Inr (PStr ''hello'')
   \<and> from_typed_data TD_unset = Inl (NotImplementedError ''unsupported TypeData kind: None'')
   \<and> from_incoming_proto passing_binding Map.empty ''queue'' TD_unset None None
      = Inl (NotImplementedError ''unsupported TypeData kind: None'')"
  using from_incoming_proto_None [where val = "TD_string ''hello''"
      and d = "Datum (PStr ''hello'') ''string''" and G = passing_binding and sm = Map.empty
      and name = "''queue''" and pytype = None]
    from_incoming_proto_None [where val = TD_unset
      and e = "NotImplementedError ''unsupported TypeData kind: None''" and G = passing_binding
      and sm = Map.empty and name = "''queue''" and pytype = None]
  by (simp add: get_binding_def get_binding_registry_def passing_binding_def repr_opt_def)

text \<open>
  C10 as stated fails: for a wire value with the field \<^verbatim>\<open>int\<close> populated and \<^verbatim>\<open>None\<close> for
  \<^verbatim>\<open>trigger_metadata\<close> the call raises \<^verbatim>\<open>NotImplementedError\<close>, before the metadata is
  looked at.
\<close>

theorem from_incoming_proto_None_unsupported:
  "from_incoming_proto passing_binding Map.empty ''queue'' (TD_other ''int'') None None
     = Inl (NotImplementedError (''unsupported TypeData kind: '' @ squote # ''int'' @ [squote]))"
  by (simp add: from_incoming_proto_def Let_def repr_str_int)

section \<open>Properties of the annotation matcher\<close>

lemma issubclass_class:
  "is_type c \<Longrightarrow> is_type a \<Longrightarrow> issubclass c a = Inr (subclass_of c a)"
  by (cases a) simp_all

lemma any_subclass_classes:
  "\<forall>(t, arg) \<in> set ps. is_type arg \<Longrightarrow>
     any_subclass ps = Inr (\<exists>(t, arg) \<in> set ps. is_type t \<and> subclass_of t arg)"
proof (induction ps)
  case Nil
  then show ?case by simp
next
  case (Cons p ps)
  obtain t arg where p: "p = (t, arg)" by (cases p)
  with Cons.prems have a: "is_type arg" and rest: "\<forall>(t, arg) \<in> set ps. is_type arg"
    by auto
  from Cons.IH [OF rest] p a show ?case
    by (auto simp: issubclass_class)
qed

lemma any_subclass_no_class:
  "\<forall>(t, arg) \<in> set ps. \<not> is_type t \<Longrightarrow> any_subclass ps = Inr False"
  by (induction ps) auto

lemma pairs_candidates:
  "(case p of TupleObj ts \<Rightarrow> any_subclass (List.product ts args)
    | _ \<Rightarrow> any_subclass (map (\<lambda>arg. (p, arg)) args))
   = any_subclass (List.product (candidates p) args)"
  by (cases p) (simp_all add: candidates_def)

lemma is_iterable_unfold:
  "is_iterable_type_annotation ti a p =
     (if \<not> is_generic_type ti a then Inr False
      else case issubclass (get_origin ti a) Iterable of
        Inl e \<Rightarrow> Inl e
      | Inr b \<Rightarrow>
          if \<not> b \<or> get_args ti a = [] then Inr False
          else any_subclass (List.product (candidates p) (get_args ti a)))"
  by (simp add: is_iterable_type_annotation_def Let_def pairs_candidates split: sum.split)

lemma issubclass_Iterable:
  "is_type c \<Longrightarrow> issubclass c Iterable = Inr (subclass_of c Iterable)"
  by (simp add: Iterable_def)

lemma issubclass_TypeVar: "issubclass c (TypeVar v) = Inl (TypeError ''issubclass() arg 2 must be a class or tuple of classes'')"
  by simp


lemma any_subclass_product_classes:
  assumes "\<forall>arg \<in> set args. is_type arg"
  shows "any_subclass (List.product cs args) =
     Inr (\<exists>t \<in> set cs. \<exists>arg \<in> set args. is_type t \<and> subclass_of t arg)"
proof -
  from assms have "\<forall>(t, arg) \<in> set (List.product cs args). is_type arg"
    by auto
  then have "any_subclass (List.product cs args) =
      Inr (\<exists>(t, arg) \<in> set (List.product cs args). is_type t \<and> subclass_of t arg)"
    by (rule any_subclass_classes)
  also have "(\<exists>(t, arg) \<in> set (List.product cs args). is_type t \<and> subclass_of t arg) \<longleftrightarrow>
      (\<exists>t \<in> set cs. \<exists>arg \<in> set args. is_type t \<and> subclass_of t arg)"
    by auto
  finally show ?thesis .
qed

lemma any_subclass_product_no_class:
  assumes "\<forall>t \<in> set cs. \<not> is_type t"
  shows "any_subclass (List.product cs args) = Inr False"
proof -
  from assms have "\<forall>(t, arg) \<in> set (List.product cs args). \<not> is_type t"
    by auto
  then show ?thesis by (rule any_subclass_no_class)
qed

text \<open>
  C6, as amended. For a generic annotation whose origin is a subclass of \<^verbatim>\<open>Iterable\<close> and
  whose type arguments are classes, at least one of them, and for a tuple of candidates,
  \<^verbatim>\<open>is_iterable_type_annotation\<close> returns true exactly when some candidate is a class
  that is a subclass of some type argument.
\<close>

theorem is_iterable_tuple_classes:
  "is_generic_type ti a \<and> is_type (get_origin ti a) \<and> subclass_of (get_origin ti a) Iterable
     \<and> get_args ti a \<noteq> [] \<and> (\<forall>arg \<in> set (get_args ti a). is_type arg) \<longrightarrow>
   is_iterable_type_annotation ti a (TupleObj ts) =
     Inr (\<exists>t \<in> set ts. \<exists>arg \<in> set (get_args ti a). is_type t \<and> subclass_of t arg)"
proof
  assume h: "is_generic_type ti a \<and> is_type (get_origin ti a) \<and> subclass_of (get_origin ti a) Iterable
     \<and> get_args ti a \<noteq> [] \<and> (\<forall>arg \<in> set (get_args ti a). is_type arg)"
  then have "issubclass (get_origin ti a) Iterable = Inr True"
    by (simp add: issubclass_Iterable)
  with h have "is_iterable_type_annotation ti a (TupleObj ts) =
      any_subclass (List.product ts (get_args ti a))"
    by (simp add: is_iterable_unfold candidates_def)
  with h show "is_iterable_type_annotation ti a (TupleObj ts) =
     Inr (\<exists>t \<in> set ts. \<exists>arg \<in> set (get_args ti a). is_type t \<and> subclass_of t arg)"
    by (simp add: any_subclass_product_classes)
qed

lemma inspect_List_of:
  "is_generic_type inspect_model (List_of xs)"
  "get_origin inspect_model (List_of xs) = list_class"
  "get_args inspect_model (List_of xs) = xs"
  by (simp_all add: inspect_model_def List_of_def)

lemma list_class_Iterable: "is_type list_class" "subclass_of list_class Iterable"
  by (simp_all add: list_class_def Iterable_def)

theorem is_iterable_tuple_classes_witness:
  "is_generic_type inspect_model (List_of [int_class])
   \<and> is_type (get_origin inspect_model (List_of [int_class]))
   \<and> subclass_of (get_origin inspect_model (List_of [int_class])) Iterable
   \<and> get_args inspect_model (List_of [int_class]) \<noteq> []
   \<and> get_args inspect_model (List_of [int_class]) = [int_class] \<and> is_type int_class
   \<and> is_iterable_type_annotation inspect_model (List_of [int_class])
        (TupleObj [str_class, bool_class]) = Inr True
   \<and> is_iterable_type_annotation inspect_model (List_of [int_class])
        (TupleObj [str_class, NoneObj]) = Inr False"
  using is_iterable_tuple_classes [where ti = inspect_model and a = "List_of [int_class]"
      and ts = "[str_class, bool_class]"]
    is_iterable_tuple_classes [where ti = inspect_model and a = "List_of [int_class]"
      and ts = "[str_class, NoneObj]"]
  by (simp add: inspect_List_of list_class_Iterable int_class_def str_class_def bool_class_def)

text \<open>
  C6 as stated fails: for \<^verbatim>\<open>List[T]\<close> with a type variable \<open>T\<close> and the candidates
  \<^verbatim>\<open>(int,)\<close> the call returns neither true nor false, it raises \<^verbatim>\<open>TypeError\<close>.
\<close>

theorem is_iterable_tuple_typevar_raises:
  "is_iterable_type_annotation inspect_model (List_of [TypeVar ''T'']) (TupleObj [int_class]) =
     Inl (TypeError ''issubclass() arg 2 must be a class or tuple of classes'')"
  by (simp add: is_iterable_unfold inspect_List_of list_class_Iterable issubclass_Iterable
      candidates_def int_class_def)

text \<open>
  C3, as amended. When the origin that \<^verbatim>\<open>typing_inspect\<close> reports for a generic
  annotation is a class, and either all type arguments are classes or no candidate is a
  class, \<^verbatim>\<open>is_iterable_type_annotation\<close> returns a boolean: false when the annotation is
  not generic or its origin is no subclass of \<^verbatim>\<open>Iterable\<close>, false when there are no type
  arguments, and false when no candidate is a class.
\<close>

theorem is_iterable_no_raise:
  "(is_generic_type ti a \<longrightarrow> is_type (get_origin ti a))
     \<and> ((\<forall>arg \<in> set (get_args ti a). is_type arg) \<or> (\<forall>t \<in> set (candidates p). \<not> is_type t)) \<longrightarrow>
   (\<exists>b. is_iterable_type_annotation ti a p = Inr b)
   \<and> (\<not> is_generic_type ti a \<or> \<not> subclass_of (get_origin ti a) Iterable \<longrightarrow>
        is_iterable_type_annotation ti a p = Inr False)
   \<and> (get_args ti a = [] \<longrightarrow> is_iterable_type_annotation ti a p = Inr False)
   \<and> ((\<forall>t \<in> set (candidates p). \<not> is_type t) \<longrightarrow>
        is_iterable_type_annotation ti a p = Inr False)"
proof
  assume h: "(is_generic_type ti a \<longrightarrow> is_type (get_origin ti a))
     \<and> ((\<forall>arg \<in> set (get_args ti a). is_type arg) \<or> (\<forall>t \<in> set (candidates p). \<not> is_type t))"
  let ?r = "is_iterable_type_annotation ti a p"
  let ?loop = "any_subclass (List.product (candidates p) (get_args ti a))"
  have r: "?r =
      (if \<not> is_generic_type ti a \<or> \<not> subclass_of (get_origin ti a) Iterable
          \<or> get_args ti a = [] then Inr False else ?loop)"
    using h by (simp add: is_iterable_unfold issubclass_Iterable)
  have loop: "\<exists>b. ?loop = Inr b"
    using h any_subclass_product_classes [of "get_args ti a" "candidates p"]
      any_subclass_product_no_class [of "candidates p" "get_args ti a"]
    by auto
  have none: "(\<forall>t \<in> set (candidates p). \<not> is_type t) \<longrightarrow> ?loop = Inr False"
    by (simp add: any_subclass_product_no_class)
  show "(\<exists>b. ?r = Inr b)
   \<and> (\<not> is_generic_type ti a \<or> \<not> subclass_of (get_origin ti a) Iterable \<longrightarrow> ?r = Inr False)
   \<and> (get_args ti a = [] \<longrightarrow> ?r = Inr False)
   \<and> ((\<forall>t \<in> set (candidates p). \<not> is_type t) \<longrightarrow> ?r = Inr False)"
    using r loop none by auto
qed

lemma inspect_int_class:
  "\<not> is_generic_type inspect_model int_class"
  "get_args inspect_model int_class = []"
  by (simp_all add: inspect_model_def int_class_def)

theorem is_iterable_no_raise_witness:
  "candidates NoneObj = [NoneObj] \<and> \<not> is_type NoneObj
   \<and> is_iterable_type_annotation inspect_model (List_of [TypeVar ''T'']) NoneObj = Inr False
   \<and> \<not> is_generic_type inspect_model int_class
   \<and> is_iterable_type_annotation inspect_model int_class int_class = Inr False
   \<and> get_args inspect_model (List_of []) = []
   \<and> is_iterable_type_annotation inspect_model (List_of []) int_class = Inr False"
proof -
  have c: "\<forall>t \<in> set (candidates NoneObj). \<not> is_type t"
    by (simp add: candidates_def)
  from is_iterable_no_raise [where ti = inspect_model and a = "List_of [TypeVar ''T'']"
      and p = NoneObj] c
  have 1: "is_iterable_type_annotation inspect_model (List_of [TypeVar ''T'']) NoneObj = Inr False"
    by (simp add: inspect_List_of list_class_Iterable)
  from is_iterable_no_raise [where ti = inspect_model and a = int_class and p = int_class]
  have 2: "is_iterable_type_annotation inspect_model int_class int_class = Inr False"
    by (simp add: inspect_int_class)
  from is_iterable_no_raise [where ti = inspect_model and a = "List_of []" and p = int_class]
  have 3: "is_iterable_type_annotation inspect_model (List_of []) int_class = Inr False"
    by (simp add: inspect_List_of list_class_Iterable)
  from 1 2 3 show ?thesis
    by (simp add: inspect_int_class inspect_List_of candidates_def)
qed

text \<open>
  C3 as stated fails: the candidate \<^verbatim>\<open>int\<close> compared with the type argument of
  \<^verbatim>\<open>List[T]\<close>, which is no class, raises \<^verbatim>\<open>TypeError\<close>.
\<close>

theorem is_iterable_typevar_raises:
  "is_iterable_type_annotation inspect_model (List_of [TypeVar ''T'']) int_class =
     Inl (TypeError ''issubclass() arg 2 must be a class or tuple of classes'')"
  by (simp add: is_iterable_unfold inspect_List_of list_class_Iterable issubclass_Iterable
      candidates_def int_class_def)

end
